theory Spec2Isabelle
  imports Main
begin

section \<open>JavaScript values\<close>

text \<open>
  The options page handles values whose static type is \<^verbatim>\<open>unknown\<close>: what the storage
  host hands back, what it raises, and \<^verbatim>\<open>chrome.runtime.lastError\<close>. They are modelled
  by a datatype of run-time values. An object is the list of its own properties in
  insertion order; \<open>JError m\<close> is an instance of \<^verbatim>\<open>Error\<close> with message \<open>m\<close>. Numbers are
  integers here: no operation of the page computes with a number.
\<close>

datatype js_value =
    JUndefined
  | JNull
  | JBoolean bool
  | JNumber int
  | JString string
  | JError string
  | JObject "(string \<times> js_value) list"

type_synonym js_object = "(string \<times> js_value) list"

text \<open>\<^verbatim>\<open>typeof v\<close>.\<close>

fun js_typeof :: "js_value \<Rightarrow> string" where
  "js_typeof JUndefined = ''undefined''"
| "js_typeof JNull = ''object''"
| "js_typeof (JBoolean b) = ''boolean''"
| "js_typeof (JNumber n) = ''number''"
| "js_typeof (JString s) = ''string''"
| "js_typeof (JError m) = ''object''"
| "js_typeof (JObject ps) = ''object''"

text \<open>The truth value of \<^verbatim>\<open>if (v)\<close>.\<close>

fun truthy :: "js_value \<Rightarrow> bool" where
  "truthy JUndefined = False"
| "truthy JNull = False"
| "truthy (JBoolean b) = b"
| "truthy (JNumber n) = (n \<noteq> 0)"
| "truthy (JString s) = (s \<noteq> [])"
| "truthy (JError m) = True"
| "truthy (JObject ps) = True"

text \<open>\<^verbatim>\<open>v ?? d\<close>: the right operand replaces \<^verbatim>\<open>null\<close> and \<^verbatim>\<open>undefined\<close> only.\<close>

definition nullish :: "js_value \<Rightarrow> js_value \<Rightarrow> js_value" where
  "nullish v d = (if v = JUndefined \<or> v = JNull then d else v)"

text \<open>\<^verbatim>\<open>data.k\<close> on a plain object: a property that is not there reads \<^verbatim>\<open>undefined\<close>.\<close>

definition property :: "js_object \<Rightarrow> string \<Rightarrow> js_value" where
  "property data k = (case map_of data k of None \<Rightarrow> JUndefined | Some v \<Rightarrow> v)"

text \<open>
  What TypeScript's narrowing does after a successful \<^verbatim>\<open>typeof\<close> test: the same value,
  now read at its own type. The last equation of each is never reached behind the test.
\<close>

fun as_string :: "js_value \<Rightarrow> string" where
  "as_string (JString s) = s"
| "as_string v = []"

fun as_boolean :: "js_value \<Rightarrow> bool" where
  "as_boolean (JBoolean b) = b"
| "as_boolean v = False"

text \<open>A parameter of type \<^verbatim>\<open>T | null | undefined\<close>.\<close>

datatype 'a nullable = Null | Undefined | Value 'a


section \<open>Settings model\<close>

record Settings =
  skipKey :: string
  holdToSend :: bool
  autoExpandChats :: bool
  autoTempChat :: bool
  tempChatEnabled :: bool

definition SETTINGS_DEFAULTS :: Settings where
  "SETTINGS_DEFAULTS =
     \<lparr> skipKey = ''Shift'',
       holdToSend = False,
       autoExpandChats = True,
       autoTempChat = False,
       tempChatEnabled = False \<rparr>"

text \<open>
  A \<open>Settings\<close> value is an ordinary object at run time: this is the object a literal
  with the five properties builds, in the order the interface lists them.
\<close>

definition settings_object :: "Settings \<Rightarrow> js_object" where
  "settings_object s =
     [ (''skipKey'', JString (skipKey s)),
       (''holdToSend'', JBoolean (holdToSend s)),
       (''autoExpandChats'', JBoolean (autoExpandChats s)),
       (''autoTempChat'', JBoolean (autoTempChat s)),
       (''tempChatEnabled'', JBoolean (tempChatEnabled s)) ]"


section \<open>Normalization\<close>

definition normalizeSettings :: "js_object nullable \<Rightarrow> Settings" where
  "normalizeSettings v =
     (let base = SETTINGS_DEFAULTS;
          data = (case v of Value d \<Rightarrow> d | Null \<Rightarrow> [] | Undefined \<Rightarrow> [])
      in \<lparr> skipKey =
             (if js_typeof (property data ''skipKey'') = ''string''
              then as_string (property data ''skipKey'') else skipKey base),
           holdToSend =
             (if js_typeof (property data ''holdToSend'') = ''boolean''
              then as_boolean (property data ''holdToSend'') else holdToSend base),
           autoExpandChats =
             (if js_typeof (property data ''autoExpandChats'') = ''boolean''
              then as_boolean (property data ''autoExpandChats'') else autoExpandChats base),
           autoTempChat =
             (if js_typeof (property data ''autoTempChat'') = ''boolean''
              then as_boolean (property data ''autoTempChat'') else autoTempChat base),
           tempChatEnabled =
             (if js_typeof (property data ''tempChatEnabled'') = ''boolean''
              then as_boolean (property data ''tempChatEnabled'') else tempChatEnabled base) \<rparr>)"


section \<open>The page's elements\<close>

text \<open>
  \<^verbatim>\<open>mustGetElement\<close> casts what \<^verbatim>\<open>getElementById\<close> finds to the element type its caller
  names, without a check. The model therefore gives every element the properties the
  controller touches: the text content, the option values and selected index of a
  single-selection control, and the checked state of a toggle.
\<close>

record element =
  textContent :: string
  options :: "string list"
  selectedIndex :: int
  checked :: bool

text \<open>
  Reading \<^verbatim>\<open>select.value\<close> gives the value of the selected option, or the empty string
  when none is selected.
\<close>

definition get_value :: "element \<Rightarrow> string" where
  "get_value el =
     (if 0 \<le> selectedIndex el \<and> selectedIndex el < int (length (options el))
      then options el ! nat (selectedIndex el) else [])"

text \<open>
  Writing \<^verbatim>\<open>select.value\<close> selects the first option with that value; when no option has
  it, the control is left with nothing selected.
\<close>

fun index_of :: "string \<Rightarrow> string list \<Rightarrow> int" where
  "index_of v [] = - 1"
| "index_of v (x # xs) =
     (if x = v then 0 else (let i = index_of v xs in if i < 0 then - 1 else i + 1))"

definition set_value :: "string \<Rightarrow> element \<Rightarrow> element" where
  "set_value v el = el\<lparr>selectedIndex := index_of v (options el)\<rparr>"

text \<open>
  The document: \<^verbatim>\<open>getElementById\<close> as a lookup that may find nothing. What
  \<^verbatim>\<open>mustGetElement\<close> throws is the \<^verbatim>\<open>Error\<close> it builds.
\<close>

type_synonym document = "string \<Rightarrow> element option"

definition mustGetElement :: "document \<Rightarrow> string \<Rightarrow> js_value + element" where
  "mustGetElement doc ident =
     (case doc ident of
        None \<Rightarrow> Inl (JError (''Missing element: '' @ ident))
      | Some el \<Rightarrow> Inr el)"

text \<open>The five module-level constants, bound in this order when the script starts.\<close>

record controls =
  hintEl :: element
  selectEl :: element
  holdEl :: element
  autoExpandEl :: element
  autoTempChatEl :: element

definition init :: "document \<Rightarrow> js_value + controls" where
  "init doc =
     (case mustGetElement doc ''hint'' of Inl e \<Rightarrow> Inl e | Inr el1 \<Rightarrow>
     (case mustGetElement doc ''skipKey'' of Inl e \<Rightarrow> Inl e | Inr el2 \<Rightarrow>
     (case mustGetElement doc ''holdToSend'' of Inl e \<Rightarrow> Inl e | Inr el3 \<Rightarrow>
     (case mustGetElement doc ''autoExpandChats'' of Inl e \<Rightarrow> Inl e | Inr el4 \<Rightarrow>
     (case mustGetElement doc ''autoTempChat'' of Inl e \<Rightarrow> Inl e | Inr el5 \<Rightarrow>
        Inr \<lparr> hintEl = el1, selectEl = el2, holdEl = el3,
              autoExpandEl = el4, autoTempChatEl = el5 \<rparr>)))))"


section \<open>Hint text\<close>

definition setHint :: "string \<Rightarrow> bool \<Rightarrow> controls \<Rightarrow> controls" where
  "setHint skipKey' holdToSend' c =
     (if skipKey' = ''None''
      then c\<lparr>hintEl := (hintEl c)\<lparr>textContent :=
             (if holdToSend'
              then ''Auto-send is disabled because no modifier key is selected.''
              else ''Auto-send always happens when you accept dictation.'')\<rparr>\<rparr>
      else c\<lparr>hintEl := (hintEl c)\<lparr>textContent :=
             (if holdToSend'
              then ''Auto-send happens only while holding '' @ skipKey' @
                   '' when you accept dictation.''
              else ''Hold '' @ skipKey' @ '' while accepting dictation to skip auto-send.'')\<rparr>\<rparr>)"


section \<open>Storage access\<close>

text \<open>
  An asynchronous operation ends in one of three ways: its promise is fulfilled, it is
  rejected with a reason, or it never settles.
\<close>

datatype 'a outcome = Resolved 'a | Rejected js_value | Pending

text \<open>
  How the host completes one call of \<^verbatim>\<open>area.get\<close> or \<^verbatim>\<open>area.set\<close>, as the promise built
  around the call sees it (a promise keeps the first signal and ignores later ones):
  the call throws; the callback runs, with a result and with the value
  \<^verbatim>\<open>chrome?.runtime?.lastError\<close> has at that moment (\<open>JUndefined\<close> when any link of the
  chain is absent); the call returns a thenable, which settles in some way; or none of
  these ever happens.
\<close>

datatype 'a host_reply =
    Throws js_value
  | CallsBack 'a js_value
  | ReturnsThenable "'a outcome"
  | Silent

text \<open>
  The calls made on storage areas so far, oldest first. An area is an object of the
  host: \<open>ident\<close> is its identity, and what it answers may depend on everything that was
  asked before (a get may answer what an earlier set stored).
\<close>

datatype call = GetCall nat Settings | SetCall nat js_object

record StorageAreaLike =
  ident :: nat
  area_get :: "call list \<Rightarrow> Settings \<Rightarrow> js_object host_reply"
  area_set :: "call list \<Rightarrow> js_object \<Rightarrow> unit host_reply"

record StorageApi =
  sync :: "StorageAreaLike option"
  local :: "StorageAreaLike option"

text \<open>
  The two globals. \<^verbatim>\<open>chrome\<close> is declared as an object; \<^verbatim>\<open>browser\<close> may be missing
  altogether, which is what \<^verbatim>\<open>typeof browser !== "undefined"\<close> asks.
\<close>

record api_global =
  storage :: "StorageApi option"

record env =
  browser :: "api_global option"
  chrome :: api_global

definition toError :: "js_value \<Rightarrow> string \<Rightarrow> js_value" where
  "toError err fallback = (case err of JError m \<Rightarrow> JError m | _ \<Rightarrow> JError fallback)"

definition getStorageArea :: "env \<Rightarrow> bool \<Rightarrow> StorageAreaLike option" where
  "getStorageArea e preferSync =
     (let api = (if browser e \<noteq> None then browser e else Some (chrome e));
          storage' = (case api of
                        None \<Rightarrow> None
                      | Some a \<Rightarrow> (case storage a of None \<Rightarrow> None | Some s \<Rightarrow> Some s))
      in case storage' of
           None \<Rightarrow> None
         | Some s \<Rightarrow>
             if preferSync \<and> sync s \<noteq> None then sync s
             else if local s \<noteq> None then local s
             else None)"

definition tryGet :: "Settings \<Rightarrow> StorageAreaLike \<Rightarrow> call list \<Rightarrow> js_object outcome \<times> call list" where
  "tryGet keys area h =
     ((case area_get area h keys of
         Throws e \<Rightarrow> Rejected (toError e ''Storage get failed'')
       | CallsBack res lastError \<Rightarrow>
           (let err = nullish lastError JNull
            in if truthy err then Rejected (toError err ''Storage get failed'')
               else Resolved res)
       | ReturnsThenable r \<Rightarrow> r
       | Silent \<Rightarrow> Pending),
      h @ [GetCall (ident area) keys])"

definition storageGet :: "env \<Rightarrow> Settings \<Rightarrow> call list \<Rightarrow> js_object outcome \<times> call list" where
  "storageGet e keys h =
     (let areaSync = getStorageArea e True;
          areaLocal = getStorageArea e False;
          rest = (\<lambda>h'. case areaLocal of
                          Some l \<Rightarrow> tryGet keys l h'
                        | None \<Rightarrow> (Resolved [], h'))
      in case areaSync of
           None \<Rightarrow> rest h
         | Some a \<Rightarrow>
             (case tryGet keys a h of
                (Resolved r, h1) \<Rightarrow> (Resolved r, h1)
              | (Rejected x, h1) \<Rightarrow> rest h1
              | (Pending, h1) \<Rightarrow> (Pending, h1)))"

definition trySet :: "js_object \<Rightarrow> StorageAreaLike \<Rightarrow> call list \<Rightarrow> unit outcome \<times> call list" where
  "trySet obj area h =
     ((case area_set area h obj of
         Throws e \<Rightarrow> Rejected (toError e ''Storage set failed'')
       | CallsBack u lastError \<Rightarrow>
           (let err = nullish lastError JNull
            in if truthy err then Rejected (toError err ''Storage set failed'')
               else Resolved ())
       | ReturnsThenable r \<Rightarrow> (case r of Resolved u \<Rightarrow> Resolved () | Rejected x \<Rightarrow> Rejected x | Pending \<Rightarrow> Pending)
       | Silent \<Rightarrow> Pending),
      h @ [SetCall (ident area) obj])"

definition storageSet :: "env \<Rightarrow> js_object \<Rightarrow> call list \<Rightarrow> unit outcome \<times> call list" where
  "storageSet e obj h =
     (let areaSync = getStorageArea e True;
          areaLocal = getStorageArea e False;
          rest = (\<lambda>syncOk h'. case areaLocal of
                                 Some l \<Rightarrow> if \<not> syncOk then trySet obj l h' else (Resolved (), h')
                               | None \<Rightarrow> (Resolved (), h'))
      in case areaSync of
           None \<Rightarrow> rest False h
         | Some a \<Rightarrow>
             (case trySet obj a h of
                (Resolved u, h1) \<Rightarrow> rest True h1
              | (Rejected x, h1) \<Rightarrow> rest False h1
              | (Pending, h1) \<Rightarrow> (Pending, h1)))"


section \<open>Loading and saving\<close>

definition load :: "env \<Rightarrow> call list \<times> controls \<Rightarrow> unit outcome \<times> call list \<times> controls" where
  "load e st =
     (case st of (h, c) \<Rightarrow>
      (case storageGet e SETTINGS_DEFAULTS h of
         (Rejected x, h1) \<Rightarrow> (Rejected x, h1, c)
       | (Pending, h1) \<Rightarrow> (Pending, h1, c)
       | (Resolved data, h1) \<Rightarrow>
           (let settings = normalizeSettings (Value data);
                c1 = c\<lparr>selectEl := set_value (skipKey settings) (selectEl c)\<rparr>;
                c2 = c1\<lparr>holdEl := (holdEl c1)\<lparr>checked := holdToSend settings\<rparr>\<rparr>;
                c3 = c2\<lparr>autoExpandEl := (autoExpandEl c2)\<lparr>checked := autoExpandChats settings\<rparr>\<rparr>;
                c4 = c3\<lparr>autoTempChatEl := (autoTempChatEl c3)\<lparr>checked := autoTempChat settings\<rparr>\<rparr>
            in (Resolved (), h1, setHint (skipKey settings) (holdToSend settings) c4))))"

text \<open>
  \<^verbatim>\<open>save\<close> reads the four controls and hands \<^verbatim>\<open>storageSet\<close> an object literal built
  from what it read; \<open>save_payload\<close> is that object.
\<close>

definition save_payload :: "controls \<Rightarrow> js_object" where
  "save_payload c =
     (let skipKey' = get_value (selectEl c);
          holdToSend' = (\<not> \<not> checked (holdEl c));
          autoExpandChats' = (\<not> \<not> checked (autoExpandEl c));
          autoTempChat' = (\<not> \<not> checked (autoTempChatEl c))
      in [ (''skipKey'', JString skipKey'),
           (''holdToSend'', JBoolean holdToSend'),
           (''autoExpandChats'', JBoolean autoExpandChats'),
           (''autoTempChat'', JBoolean autoTempChat'),
           (''tempChatEnabled'', JBoolean autoTempChat') ])"

definition save :: "env \<Rightarrow> call list \<times> controls \<Rightarrow> unit outcome \<times> call list \<times> controls" where
  "save e st =
     (case st of (h, c) \<Rightarrow>
      (let skipKey' = get_value (selectEl c);
           holdToSend' = (\<not> \<not> checked (holdEl c))
       in case storageSet e (save_payload c) h of
            (Rejected x, h1) \<Rightarrow> (Rejected x, h1, c)
          | (Pending, h1) \<Rightarrow> (Pending, h1, c)
          | (Resolved u, h1) \<Rightarrow> (Resolved (), h1, setHint skipKey' holdToSend' c)))"

text \<open>
  The script's top level: the five elements are looked up, the change listeners are
  attached, and \<^verbatim>\<open>load\<close> runs once with its outcome discarded
  (\<^verbatim>\<open>void load().catch(() => {})\<close>). A missing element ends the script with the error
  thrown, before anything else runs.
\<close>

definition startup :: "document \<Rightarrow> env \<Rightarrow> call list \<Rightarrow> js_value + (call list \<times> controls)" where
  "startup doc e h =
     (case init doc of
        Inl x \<Rightarrow> Inl x
      | Inr c \<Rightarrow> (case load e (h, c) of (r, h1, c1) \<Rightarrow> Inr (h1, c1)))"


section \<open>Example hosts and pages\<close>

text \<open>
  Concrete inputs on which the definitions above are run. \<open>fixed_area\<close> answers every
  get and every set in the same way; \<open>flaky_area\<close> fails the first call made on any
  area and completes every later one; \<open>chrome_host\<close> is a host that defines only the
  \<^verbatim>\<open>chrome\<close> global.
\<close>

definition fixed_area :: "nat \<Rightarrow> js_object host_reply \<Rightarrow> unit host_reply \<Rightarrow> StorageAreaLike" where
  "fixed_area i g s = \<lparr> ident = i, area_get = (\<lambda>h keys. g), area_set = (\<lambda>h obj. s) \<rparr>"

definition flaky_area :: "nat \<Rightarrow> js_object \<Rightarrow> StorageAreaLike" where
  "flaky_area i stored =
     \<lparr> ident = i,
       area_get = (\<lambda>h keys. if h = [] then Throws (JString ''not ready'')
                             else CallsBack stored JUndefined),
       area_set = (\<lambda>h obj. if h = [] then ReturnsThenable (Rejected (JError ''quota exceeded''))
                            else CallsBack () JUndefined) \<rparr>"

definition chrome_host :: "StorageAreaLike option \<Rightarrow> StorageAreaLike option \<Rightarrow> env" where
  "chrome_host sy lo =
     \<lparr> browser = None, chrome = \<lparr> storage = Some \<lparr> sync = sy, local = lo \<rparr> \<rparr> \<rparr>"


definition stored_alt :: js_object where
  "stored_alt = [(''skipKey'', JString ''Alt''), (''holdToSend'', JBoolean True)]"

text \<open>
  An area whose calls complete through the callback with no error set, one whose calls
  throw, and one whose callback finds \<^verbatim>\<open>lastError\<close> set.
\<close>

definition ok_area :: "nat \<Rightarrow> StorageAreaLike" where
  "ok_area i = fixed_area i (CallsBack stored_alt JUndefined) (CallsBack () JUndefined)"

definition throwing_area :: "nat \<Rightarrow> StorageAreaLike" where
  "throwing_area i = fixed_area i (Throws JNull) (Throws JNull)"



text \<open>
  \<^verbatim>\<open>browser\<close> is defined but carries no storage object, while \<^verbatim>\<open>chrome\<close> carries one with
  both areas.
\<close>

definition browser_without_storage :: env where
  "browser_without_storage =
     \<lparr> browser = Some \<lparr> storage = None \<rparr>,
       chrome = \<lparr> storage = Some \<lparr> sync = Some (fixed_area 1 Silent Silent),
                                   local = Some (fixed_area 2 Silent Silent) \<rparr> \<rparr> \<rparr>"

text \<open>Both globals carry a storage object, each with a local area of its own.\<close>

definition both_globals :: env where
  "both_globals =
     \<lparr> browser = Some \<lparr> storage = Some \<lparr> sync = None, local = Some (fixed_area 7 Silent Silent) \<rparr> \<rparr>,
       chrome = \<lparr> storage = Some \<lparr> sync = None, local = Some (fixed_area 8 Silent Silent) \<rparr> \<rparr> \<rparr>"

definition no_storage_host :: env where
  "no_storage_host = \<lparr> browser = None, chrome = \<lparr> storage = None \<rparr> \<rparr>"

text \<open>A page with the five elements; the selection control offers four keys.\<close>

definition blank_element :: element where
  "blank_element = \<lparr> textContent = [], options = [], selectedIndex = - 1, checked = False \<rparr>"

definition key_select :: element where
  "key_select = blank_element\<lparr>options := [''Shift'', ''Ctrl'', ''Alt'', ''None''], selectedIndex := 0\<rparr>"

definition example_controls :: controls where
  "example_controls =
     \<lparr> hintEl = blank_element, selectEl = key_select, holdEl = blank_element,
       autoExpandEl = blank_element\<lparr>checked := True\<rparr>, autoTempChatEl = blank_element \<rparr>"

definition example_document :: document where
  "example_document =
     [''hint'' \<mapsto> blank_element, ''skipKey'' \<mapsto> key_select, ''holdToSend'' \<mapsto> blank_element,
      ''autoExpandChats'' \<mapsto> blank_element\<lparr>checked := True\<rparr>, ''autoTempChat'' \<mapsto> blank_element]"


section \<open>Auxiliary facts\<close>

lemma property_Nil: "property [] k = JUndefined"
  by (simp add: property_def)

lemma typeof_string: "js_typeof v = ''string'' \<Longrightarrow> JString (as_string v) = v"
  by (cases v) simp_all

lemma typeof_boolean: "js_typeof v = ''boolean'' \<Longrightarrow> JBoolean (as_boolean v) = v"
  by (cases v) simp_all

text \<open>The storage object the lookup settles on decides both of its answers.\<close>

lemma getStorageArea_chosen:
  assumes "(case browser e of Some b \<Rightarrow> storage b | None \<Rightarrow> storage (chrome e)) = Some s"
  shows "getStorageArea e p = (if p \<and> sync s \<noteq> None then sync s else local s)"
  using assms by (auto simp: getStorageArea_def Let_def split: option.splits)

lemma getStorageArea_absent:
  assumes "(case browser e of Some b \<Rightarrow> storage b | None \<Rightarrow> storage (chrome e)) = None"
  shows "getStorageArea e p = None"
  using assms by (auto simp: getStorageArea_def Let_def split: option.splits)

lemma snd_tryGet: "snd (tryGet keys a h) = h @ [GetCall (ident a) keys]"
  by (simp add: tryGet_def)

lemma snd_trySet: "snd (trySet obj a h) = h @ [SetCall (ident a) obj]"
  by (simp add: trySet_def)

text \<open>The control flow of the two storage functions, by the outcome of the first attempt.\<close>

lemma storageGet_cases:
  "storageGet e keys h =
     (case getStorageArea e True of
        None \<Rightarrow> (case getStorageArea e False of
                    Some l \<Rightarrow> tryGet keys l h | None \<Rightarrow> (Resolved [], h))
      | Some a \<Rightarrow>
          (case fst (tryGet keys a h) of
             Resolved r \<Rightarrow> (Resolved r, h @ [GetCall (ident a) keys])
           | Rejected x \<Rightarrow>
               (case getStorageArea e False of
                  Some l \<Rightarrow> tryGet keys l (h @ [GetCall (ident a) keys])
                | None \<Rightarrow> (Resolved [], h @ [GetCall (ident a) keys]))
           | Pending \<Rightarrow> (Pending, h @ [GetCall (ident a) keys])))"
  by (simp add: storageGet_def Let_def tryGet_def split: option.splits outcome.splits prod.splits)

lemma storageSet_cases:
  "storageSet e obj h =
     (case getStorageArea e True of
        None \<Rightarrow> (case getStorageArea e False of
                    Some l \<Rightarrow> trySet obj l h | None \<Rightarrow> (Resolved (), h))
      | Some a \<Rightarrow>
          (case fst (trySet obj a h) of
             Resolved u \<Rightarrow> (Resolved (), h @ [SetCall (ident a) obj])
           | Rejected x \<Rightarrow>
               (case getStorageArea e False of
                  Some l \<Rightarrow> trySet obj l (h @ [SetCall (ident a) obj])
                | None \<Rightarrow> (Resolved (), h @ [SetCall (ident a) obj]))
           | Pending \<Rightarrow> (Pending, h @ [SetCall (ident a) obj])))"
  by (simp add: storageSet_def Let_def trySet_def split: option.splits outcome.splits prod.splits)

text \<open>\<^verbatim>\<open>storageSet\<close> makes at most two calls, each a set with the object it was given.\<close>

lemma storageSet_calls:
  "\<exists>ids. length ids \<le> 2 \<and> snd (storageSet e obj h) = h @ map (\<lambda>i. SetCall i obj) ids"
proof -
  have one: "\<exists>ids. length ids \<le> 2 \<and> h @ [SetCall i obj] = h @ map (\<lambda>i. SetCall i obj) ids" for i
    by (rule exI[of _ "[i]"]) simp
  have two: "\<exists>ids. length ids \<le> 2
      \<and> h @ [SetCall i obj, SetCall j obj] = h @ map (\<lambda>i. SetCall i obj) ids" for i j
    by (rule exI[of _ "[i, j]"]) simp
  have none: "\<exists>ids. length ids \<le> 2 \<and> h = h @ map (\<lambda>i. SetCall i obj) ids"
    by (rule exI[of _ "[]"]) simp
  show ?thesis
    using one two none
    by (simp add: storageSet_cases snd_trySet split: option.splits outcome.splits)
qed

text \<open>\<^verbatim>\<open>save\<close> ends as its \<^verbatim>\<open>storageSet\<close> ends, and makes exactly the calls it makes.\<close>

lemma save_runs_storageSet:
  "fst (snd (save e (h, c))) = snd (storageSet e (save_payload c) h)
   \<and> fst (save e (h, c)) = fst (storageSet e (save_payload c) h)"
  by (simp add: save_def Let_def split: prod.splits outcome.splits)

lemma storageSet_first_call:
  "getStorageArea e True = Some a \<Longrightarrow>
     take (Suc (length h)) (snd (storageSet e obj h)) = h @ [SetCall (ident a) obj]"
  by (simp add: storageSet_cases snd_trySet split: option.splits outcome.splits)



text \<open>Selecting a value the control offers makes the control show it.\<close>

lemma index_of_member:
  "v \<in> set xs \<Longrightarrow>
     0 \<le> index_of v xs \<and> index_of v xs < int (length xs) \<and> xs ! nat (index_of v xs) = v"
proof (induction xs)
  case Nil
  then show ?case by simp
next
  case (Cons x xs)
  show ?case
  proof (cases "x = v")
    case True
    then show ?thesis by simp
  next
    case False
    with Cons.prems have "v \<in> set xs" by simp
    from Cons.IH[OF this] False show ?thesis
      by (simp add: Let_def nat_add_distrib)
  qed
qed

lemma get_value_set_value:
  "v \<in> set (options el) \<Longrightarrow> get_value (set_value v el) = v"
  using index_of_member[of v "options el"] by (simp add: get_value_def set_value_def)


section \<open>Properties\<close>

text \<open>
  Claim C2. For every raw input of normalization (\<^verbatim>\<open>null\<close>, \<^verbatim>\<open>undefined\<close>, the empty
  object, or an object \<open>d\<close> with missing or wrongly typed properties) the result is a
  complete \<open>Settings\<close> value: each field is the raw property when that property has the
  expected type (string for \<open>skipKey\<close>, boolean for the four flags) and the default
  otherwise; as an object the result has exactly the five keys, with a string and four
  booleans; and the empty object, \<^verbatim>\<open>null\<close> and \<^verbatim>\<open>undefined\<close> normalize to the defaults.
\<close>

theorem normalizeSettings_fields:
  "normalizeSettings Null = SETTINGS_DEFAULTS
   \<and> normalizeSettings Undefined = SETTINGS_DEFAULTS
   \<and> normalizeSettings (Value []) = SETTINGS_DEFAULTS
   \<and> (js_typeof (property d ''skipKey'') = ''string''
        \<longrightarrow> JString (skipKey (normalizeSettings (Value d))) = property d ''skipKey'')
   \<and> (js_typeof (property d ''skipKey'') \<noteq> ''string''
        \<longrightarrow> skipKey (normalizeSettings (Value d)) = skipKey SETTINGS_DEFAULTS)
   \<and> (js_typeof (property d ''holdToSend'') = ''boolean''
        \<longrightarrow> JBoolean (holdToSend (normalizeSettings (Value d))) = property d ''holdToSend'')
   \<and> (js_typeof (property d ''holdToSend'') \<noteq> ''boolean''
        \<longrightarrow> holdToSend (normalizeSettings (Value d)) = holdToSend SETTINGS_DEFAULTS)
   \<and> (js_typeof (property d ''autoExpandChats'') = ''boolean''
        \<longrightarrow> JBoolean (autoExpandChats (normalizeSettings (Value d))) =
            property d ''autoExpandChats'')
   \<and> (js_typeof (property d ''autoExpandChats'') \<noteq> ''boolean''
        \<longrightarrow> autoExpandChats (normalizeSettings (Value d)) = autoExpandChats SETTINGS_DEFAULTS)
   \<and> (js_typeof (property d ''autoTempChat'') = ''boolean''
        \<longrightarrow> JBoolean (autoTempChat (normalizeSettings (Value d))) = property d ''autoTempChat'')
   \<and> (js_typeof (property d ''autoTempChat'') \<noteq> ''boolean''
        \<longrightarrow> autoTempChat (normalizeSettings (Value d)) = autoTempChat SETTINGS_DEFAULTS)
   \<and> (js_typeof (property d ''tempChatEnabled'') = ''boolean''
        \<longrightarrow> JBoolean (tempChatEnabled (normalizeSettings (Value d))) =
            property d ''tempChatEnabled'')
   \<and> (js_typeof (property d ''tempChatEnabled'') \<noteq> ''boolean''
        \<longrightarrow> tempChatEnabled (normalizeSettings (Value d)) = tempChatEnabled SETTINGS_DEFAULTS)
   \<and> map fst (settings_object (normalizeSettings raw)) =
        [''skipKey'', ''holdToSend'', ''autoExpandChats'', ''autoTempChat'', ''tempChatEnabled'']
   \<and> map (js_typeof \<circ> snd) (settings_object (normalizeSettings raw)) =
        [''string'', ''boolean'', ''boolean'', ''boolean'', ''boolean'']"
  by (simp add: normalizeSettings_def SETTINGS_DEFAULTS_def property_Nil typeof_string
      typeof_boolean settings_object_def Let_def)

text \<open>
  The theorem at \<^verbatim>\<open>{skipKey: 42, holdToSend: true}\<close>: the number is replaced by the
  default key, the flag is kept, the three missing flags take their defaults.
\<close>

theorem normalizeSettings_fields_witness:
  "js_typeof (property [(''skipKey'', JNumber 42), (''holdToSend'', JBoolean True)] ''skipKey'')
     \<noteq> ''string''
   \<and> js_typeof (property [(''skipKey'', JNumber 42), (''holdToSend'', JBoolean True)]
        ''holdToSend'') = ''boolean''
   \<and> js_typeof (property [(''skipKey'', JNumber 42), (''holdToSend'', JBoolean True)]
        ''autoTempChat'') \<noteq> ''boolean''
   \<and> skipKey (normalizeSettings
        (Value [(''skipKey'', JNumber 42), (''holdToSend'', JBoolean True)])) = ''Shift''
   \<and> holdToSend (normalizeSettings
        (Value [(''skipKey'', JNumber 42), (''holdToSend'', JBoolean True)])) = True
   \<and> autoExpandChats (normalizeSettings
        (Value [(''skipKey'', JNumber 42), (''holdToSend'', JBoolean True)])) = True
   \<and> autoTempChat (normalizeSettings
        (Value [(''skipKey'', JNumber 42), (''holdToSend'', JBoolean True)])) = False
   \<and> tempChatEnabled (normalizeSettings
        (Value [(''skipKey'', JNumber 42), (''holdToSend'', JBoolean True)])) = False"
  using normalizeSettings_fields
    [where d = "[(''skipKey'', JNumber 42), (''holdToSend'', JBoolean True)]"]
  by (simp add: property_def SETTINGS_DEFAULTS_def)

text \<open>
  Claim C3. The hint text depends on \<open>skipKey\<close> and \<open>holdToSend\<close> only, and takes one of
  four forms: for the key \<^verbatim>\<open>"None"\<close> one of two fixed sentences, for any other key \<open>k\<close>
  one of two sentences that name \<open>k\<close>.
\<close>

theorem setHint_text:
  "textContent (hintEl (setHint ''None'' False c)) =
     ''Auto-send always happens when you accept dictation.''
   \<and> textContent (hintEl (setHint ''None'' True c)) =
     ''Auto-send is disabled because no modifier key is selected.''
   \<and> (k \<noteq> ''None'' \<longrightarrow> textContent (hintEl (setHint k False c)) =
         ''Hold '' @ k @ '' while accepting dictation to skip auto-send.'')
   \<and> (k \<noteq> ''None'' \<longrightarrow> textContent (hintEl (setHint k True c)) =
         ''Auto-send happens only while holding '' @ k @ '' when you accept dictation.'')"
  by (simp add: setHint_def)

theorem setHint_text_witness:
  "''Ctrl'' \<noteq> ''None''
   \<and> textContent (hintEl (setHint ''Ctrl'' False example_controls)) =
       ''Hold Ctrl while accepting dictation to skip auto-send.''
   \<and> textContent (hintEl (setHint ''Ctrl'' True example_controls)) =
       ''Auto-send happens only while holding Ctrl when you accept dictation.''"
  using setHint_text[where k = "''Ctrl''" and c = example_controls]
  by simp

text \<open>
  Claim C9. Normalization is idempotent, and it is the identity on complete, correctly
  typed settings: normalizing the object of a normalized value gives that value again;
  the object of any \<open>Settings\<close> value \<open>s\<close> normalizes to \<open>s\<close>; and so does every object
  that holds the same five properties as \<open>s\<close>, in whatever order.
\<close>

theorem normalizeSettings_idempotent:
  "normalizeSettings (Value (settings_object (normalizeSettings x))) = normalizeSettings x
   \<and> normalizeSettings (Value (settings_object s)) = s
   \<and> (map_of ob = map_of (settings_object s) \<longrightarrow> normalizeSettings (Value ob) = s)"
  by (simp add: normalizeSettings_def settings_object_def property_def Let_def)

theorem normalizeSettings_idempotent_witness:
  "map_of [(''tempChatEnabled'', JBoolean True), (''autoTempChat'', JBoolean True),
           (''autoExpandChats'', JBoolean False), (''holdToSend'', JBoolean True),
           (''skipKey'', JString ''Alt'')]
     = map_of (settings_object \<lparr> skipKey = ''Alt'', holdToSend = True, autoExpandChats = False,
                                  autoTempChat = True, tempChatEnabled = True \<rparr>)
   \<and> normalizeSettings
       (Value [(''tempChatEnabled'', JBoolean True), (''autoTempChat'', JBoolean True),
               (''autoExpandChats'', JBoolean False), (''holdToSend'', JBoolean True),
               (''skipKey'', JString ''Alt'')])
     = \<lparr> skipKey = ''Alt'', holdToSend = True, autoExpandChats = False,
         autoTempChat = True, tempChatEnabled = True \<rparr>"
proof -
  have same: "map_of [(''tempChatEnabled'', JBoolean True), (''autoTempChat'', JBoolean True),
           (''autoExpandChats'', JBoolean False), (''holdToSend'', JBoolean True),
           (''skipKey'', JString ''Alt'')]
     = map_of (settings_object \<lparr> skipKey = ''Alt'', holdToSend = True, autoExpandChats = False,
                                  autoTempChat = True, tempChatEnabled = True \<rparr>)"
    by (rule ext) (simp add: settings_object_def)
  from same normalizeSettings_idempotent
    [where ob = "[(''tempChatEnabled'', JBoolean True), (''autoTempChat'', JBoolean True),
           (''autoExpandChats'', JBoolean False), (''holdToSend'', JBoolean True),
           (''skipKey'', JString ''Alt'')]"
       and s = "\<lparr> skipKey = ''Alt'', holdToSend = True, autoExpandChats = False,
                  autoTempChat = True, tempChatEnabled = True \<rparr>"]
  show ?thesis by blast
qed


text \<open>
  Claim C4. \<open>st\<close> is the storage object the page finds. \<^verbatim>\<open>storageSet\<close> writes to the
  synced area first; when that write succeeds, this is the only call made and the local
  area is not invoked; when the synced write fails, the local area is invoked next with
  the same object, and its outcome is the outcome of \<^verbatim>\<open>storageSet\<close>; when there is no
  synced area, the first call is a set on the local area with the same object; when
  there is no area at all, \<^verbatim>\<open>storageSet\<close> completes normally with no call made.
\<close>

theorem storageSet_fallback:
  assumes "(case browser e of Some b \<Rightarrow> storage b | None \<Rightarrow> storage (chrome e)) = st"
  shows
    "(st = Some s \<and> sync s = Some a \<and> fst (trySet obj a h) = Resolved ()
        \<longrightarrow> storageSet e obj h = (Resolved (), h @ [SetCall (ident a) obj]))
     \<and> (st = Some s \<and> sync s = Some a \<and> fst (trySet obj a h) = Rejected x \<and> local s = Some l
        \<longrightarrow> storageSet e obj h = trySet obj l (h @ [SetCall (ident a) obj])
            \<and> snd (storageSet e obj h) = h @ [SetCall (ident a) obj, SetCall (ident l) obj])
     \<and> (st = Some s \<and> sync s = None \<and> local s = Some l
        \<longrightarrow> take (Suc (length h)) (snd (storageSet e obj h)) = h @ [SetCall (ident l) obj])
     \<and> (st = None \<or> (st = Some s \<and> sync s = None \<and> local s = None)
        \<longrightarrow> storageSet e obj h = (Resolved (), h))"
proof (intro conjI impI)
  assume "st = Some s \<and> sync s = Some a \<and> fst (trySet obj a h) = Resolved ()"
  with assms show "storageSet e obj h = (Resolved (), h @ [SetCall (ident a) obj])"
    by (simp add: storageSet_cases getStorageArea_chosen)
next
  assume "st = Some s \<and> sync s = Some a \<and> fst (trySet obj a h) = Rejected x \<and> local s = Some l"
  with assms show "storageSet e obj h = trySet obj l (h @ [SetCall (ident a) obj])"
    by (simp add: storageSet_cases getStorageArea_chosen)
  then show "snd (storageSet e obj h) = h @ [SetCall (ident a) obj, SetCall (ident l) obj]"
    by (simp add: snd_trySet)
next
  assume "st = Some s \<and> sync s = None \<and> local s = Some l"
  with assms have "getStorageArea e True = Some l" "getStorageArea e False = Some l"
    by (simp_all add: getStorageArea_chosen)
  then show "take (Suc (length h)) (snd (storageSet e obj h)) = h @ [SetCall (ident l) obj]"
    by (simp add: storageSet_cases snd_trySet split: outcome.splits)
next
  assume "st = None \<or> (st = Some s \<and> sync s = None \<and> local s = None)"
  with assms have "getStorageArea e True = None" "getStorageArea e False = None"
    by (auto simp: getStorageArea_chosen getStorageArea_absent)
  then show "storageSet e obj h = (Resolved (), h)"
    by (simp add: storageSet_cases)
qed

text \<open>
  The theorem on four hosts: a working synced area; a synced area that throws, before a
  working local area; a local area alone; and no storage at all.
\<close>

theorem storageSet_fallback_witness:
  "storageSet (chrome_host (Some (ok_area 1)) (Some (ok_area 2))) stored_alt []
     = (Resolved (), [SetCall 1 stored_alt])
   \<and> storageSet (chrome_host (Some (throwing_area 1)) (Some (ok_area 2))) stored_alt []
     = (Resolved (), [SetCall 1 stored_alt, SetCall 2 stored_alt])
   \<and> take 1 (snd (storageSet (chrome_host None (Some (ok_area 2))) stored_alt []))
     = [SetCall 2 stored_alt]
   \<and> storageSet no_storage_host stored_alt [] = (Resolved (), [])"
proof -
  have 1: "storageSet (chrome_host (Some (ok_area 1)) (Some (ok_area 2))) stored_alt []
     = (Resolved (), [SetCall 1 stored_alt])"
    using storageSet_fallback[where e = "chrome_host (Some (ok_area 1)) (Some (ok_area 2))"
        and st = "Some \<lparr> sync = Some (ok_area 1), local = Some (ok_area 2) \<rparr>"
        and s = "\<lparr> sync = Some (ok_area 1), local = Some (ok_area 2) \<rparr>"
        and a = "ok_area 1" and obj = stored_alt and h = "[]"]
    by (simp add: chrome_host_def ok_area_def fixed_area_def trySet_def nullish_def)
  have 2: "storageSet (chrome_host (Some (throwing_area 1)) (Some (ok_area 2))) stored_alt []
     = (Resolved (), [SetCall 1 stored_alt, SetCall 2 stored_alt])"
    using storageSet_fallback[where e = "chrome_host (Some (throwing_area 1)) (Some (ok_area 2))"
        and st = "Some \<lparr> sync = Some (throwing_area 1), local = Some (ok_area 2) \<rparr>"
        and s = "\<lparr> sync = Some (throwing_area 1), local = Some (ok_area 2) \<rparr>"
        and a = "throwing_area 1" and l = "ok_area 2" and obj = stored_alt and h = "[]"
        and x = "JError ''Storage set failed''"]
    by (simp add: chrome_host_def ok_area_def throwing_area_def fixed_area_def trySet_def
        nullish_def toError_def)
  have 3: "take 1 (snd (storageSet (chrome_host None (Some (ok_area 2))) stored_alt []))
     = [SetCall 2 stored_alt]"
    using storageSet_fallback[where e = "chrome_host None (Some (ok_area 2))"
        and st = "Some \<lparr> sync = None, local = Some (ok_area 2) \<rparr>"
        and s = "\<lparr> sync = None, local = Some (ok_area 2) \<rparr>"
        and l = "ok_area 2" and obj = stored_alt and h = "[]"]
    by (simp add: chrome_host_def ok_area_def fixed_area_def)
  have 4: "storageSet no_storage_host stored_alt [] = (Resolved (), [])"
    using storageSet_fallback[where e = no_storage_host and st = None
        and obj = stored_alt and h = "[]"]
    by (simp add: no_storage_host_def)
  from 1 2 3 4 show ?thesis by simp
qed





text \<open>
  Claim C10. When the storage object has a local area and no synced one, the lookup
  returns the local area whether or not the synced one is preferred. Both attempts of
  \<^verbatim>\<open>storageGet\<close> and of \<^verbatim>\<open>storageSet\<close> then go to that area: when the first attempt
  fails, the same operation is invoked on it a second time with the same argument, and
  the outcome of the second attempt is the outcome of the function.
\<close>

theorem local_only_retries:
  assumes "(case browser e of Some b \<Rightarrow> storage b | None \<Rightarrow> storage (chrome e)) = Some s"
    and "sync s = None" and "local s = Some l"
  shows "getStorageArea e True = Some l \<and> getStorageArea e False = Some l
     \<and> (fst (tryGet keys l h) = Rejected x
        \<longrightarrow> storageGet e keys h = tryGet keys l (h @ [GetCall (ident l) keys])
            \<and> snd (storageGet e keys h) = h @ [GetCall (ident l) keys, GetCall (ident l) keys])
     \<and> (fst (trySet obj l h) = Rejected y
        \<longrightarrow> storageSet e obj h = trySet obj l (h @ [SetCall (ident l) obj])
            \<and> snd (storageSet e obj h) = h @ [SetCall (ident l) obj, SetCall (ident l) obj])"
  using assms
  by (simp add: getStorageArea_chosen storageGet_cases storageSet_cases snd_tryGet snd_trySet)

text \<open>
  The theorem on a host with one local area, whose first call fails and whose second
  call completes.
\<close>

theorem local_only_retries_witness:
  "getStorageArea (chrome_host None (Some (flaky_area 2 stored_alt))) True
     = Some (flaky_area 2 stored_alt)
   \<and> fst (tryGet SETTINGS_DEFAULTS (flaky_area 2 stored_alt) [])
     = Rejected (JError ''Storage get failed'')
   \<and> storageGet (chrome_host None (Some (flaky_area 2 stored_alt))) SETTINGS_DEFAULTS []
     = (Resolved stored_alt, [GetCall 2 SETTINGS_DEFAULTS, GetCall 2 SETTINGS_DEFAULTS])
   \<and> fst (trySet stored_alt (flaky_area 2 stored_alt) []) = Rejected (JError ''quota exceeded'')
   \<and> storageSet (chrome_host None (Some (flaky_area 2 stored_alt))) stored_alt []
     = (Resolved (), [SetCall 2 stored_alt, SetCall 2 stored_alt])"
proof -
  have st: "(case browser (chrome_host None (Some (flaky_area 2 stored_alt))) of
               Some b \<Rightarrow> storage b
             | None \<Rightarrow> storage (chrome (chrome_host None (Some (flaky_area 2 stored_alt)))))
            = Some \<lparr> sync = None, local = Some (flaky_area 2 stored_alt) \<rparr>"
    by (simp add: chrome_host_def)
  have sy: "sync \<lparr> sync = None, local = Some (flaky_area 2 stored_alt) \<rparr> = None"
    by simp
  have lo: "local \<lparr> sync = None, local = Some (flaky_area 2 stored_alt) \<rparr>
            = Some (flaky_area 2 stored_alt)"
    by simp
  show ?thesis
    using local_only_retries[OF st sy lo, where keys = SETTINGS_DEFAULTS and h = "[]"
        and obj = stored_alt and x = "JError ''Storage get failed''"
        and y = "JError ''quota exceeded''"]
    by (simp add: flaky_area_def tryGet_def trySet_def toError_def nullish_def)
qed


text \<open>
  Claim C5. Whatever the state of the form controls, the object \<^verbatim>\<open>save\<close> assembles has
  exactly the five settings keys, \<open>skipKey\<close> holding a string (the value of the selection
  control) and the four flags holding booleans (the checked states), with
  \<open>tempChatEnabled\<close> equal to \<open>autoTempChat\<close>. \<^verbatim>\<open>save\<close> hands that object to
  \<^verbatim>\<open>storageSet\<close>: it ends as that call ends and makes exactly the calls that call makes,
  each of them a set with that object; when the host has a storage area, the first call
  is a set of that object on the area the lookup prefers, and when that set succeeds,
  \<^verbatim>\<open>save\<close> completes with this single call and the hint recomputed.
\<close>

theorem save_payload_shape:
  "map fst (save_payload c) =
     [''skipKey'', ''holdToSend'', ''autoExpandChats'', ''autoTempChat'', ''tempChatEnabled'']
   \<and> property (save_payload c) ''tempChatEnabled'' = property (save_payload c) ''autoTempChat''
   \<and> property (save_payload c) ''skipKey'' = JString (get_value (selectEl c))
   \<and> property (save_payload c) ''holdToSend'' = JBoolean (checked (holdEl c))
   \<and> property (save_payload c) ''autoExpandChats'' = JBoolean (checked (autoExpandEl c))
   \<and> property (save_payload c) ''autoTempChat'' = JBoolean (checked (autoTempChatEl c))
   \<and> map (js_typeof \<circ> snd) (save_payload c) =
       [''string'', ''boolean'', ''boolean'', ''boolean'', ''boolean'']
   \<and> (\<exists>ids. length ids \<le> 2
        \<and> fst (snd (save e (h, c))) = h @ map (\<lambda>i. SetCall i (save_payload c)) ids)
   \<and> fst (snd (save e (h, c))) = snd (storageSet e (save_payload c) h)
   \<and> fst (save e (h, c)) = fst (storageSet e (save_payload c) h)
   \<and> (getStorageArea e True = Some a
        \<longrightarrow> take (Suc (length h)) (fst (snd (save e (h, c))))
            = h @ [SetCall (ident a) (save_payload c)])
   \<and> (getStorageArea e True = Some a \<and> fst (trySet (save_payload c) a h) = Resolved ()
        \<longrightarrow> save e (h, c)
            = (Resolved (), h @ [SetCall (ident a) (save_payload c)],
               setHint (get_value (selectEl c)) (checked (holdEl c)) c))"
proof -
  have shape: "map fst (save_payload c) =
     [''skipKey'', ''holdToSend'', ''autoExpandChats'', ''autoTempChat'', ''tempChatEnabled'']
   \<and> property (save_payload c) ''tempChatEnabled'' = property (save_payload c) ''autoTempChat''
   \<and> property (save_payload c) ''skipKey'' = JString (get_value (selectEl c))
   \<and> property (save_payload c) ''holdToSend'' = JBoolean (checked (holdEl c))
   \<and> property (save_payload c) ''autoExpandChats'' = JBoolean (checked (autoExpandEl c))
   \<and> property (save_payload c) ''autoTempChat'' = JBoolean (checked (autoTempChatEl c))
   \<and> map (js_typeof \<circ> snd) (save_payload c) =
       [''string'', ''boolean'', ''boolean'', ''boolean'', ''boolean'']"
    by (simp add: save_payload_def property_def Let_def)
  have calls: "\<exists>ids. length ids \<le> 2
        \<and> fst (snd (save e (h, c))) = h @ map (\<lambda>i. SetCall i (save_payload c)) ids"
    using storageSet_calls[of e "save_payload c" h] by (simp add: save_runs_storageSet)
  have first: "getStorageArea e True = Some a
        \<longrightarrow> take (Suc (length h)) (fst (snd (save e (h, c))))
            = h @ [SetCall (ident a) (save_payload c)]"
    by (simp add: save_runs_storageSet storageSet_first_call)
  have ok: "getStorageArea e True = Some a \<and> fst (trySet (save_payload c) a h) = Resolved ()
        \<longrightarrow> save e (h, c)
            = (Resolved (), h @ [SetCall (ident a) (save_payload c)],
               setHint (get_value (selectEl c)) (checked (holdEl c)) c)"
    by (simp add: save_def storageSet_cases Let_def)
  from shape calls first ok save_runs_storageSet[of e h c] show ?thesis
    by blast
qed

text \<open>
  The theorem on the example page: saved to a host with two working areas, where
  \<^verbatim>\<open>save\<close> makes one set on the synced area with the assembled object and rewrites the
  hint; and saved to a host with a throwing local area alone, where the first call is a
  set on that area with the same object.
\<close>

theorem save_payload_shape_witness:
  "save_payload example_controls =
     [(''skipKey'', JString ''Shift''), (''holdToSend'', JBoolean False),
      (''autoExpandChats'', JBoolean True), (''autoTempChat'', JBoolean False),
      (''tempChatEnabled'', JBoolean False)]
   \<and> property (save_payload example_controls) ''tempChatEnabled''
     = property (save_payload example_controls) ''autoTempChat''
   \<and> map fst (save_payload example_controls) =
     [''skipKey'', ''holdToSend'', ''autoExpandChats'', ''autoTempChat'', ''tempChatEnabled'']
   \<and> getStorageArea (chrome_host (Some (ok_area 1)) (Some (ok_area 2))) True = Some (ok_area 1)
   \<and> fst (trySet (save_payload example_controls) (ok_area 1) []) = Resolved ()
   \<and> save (chrome_host (Some (ok_area 1)) (Some (ok_area 2))) ([], example_controls)
     = (Resolved (),
        [SetCall 1 [(''skipKey'', JString ''Shift''), (''holdToSend'', JBoolean False),
                    (''autoExpandChats'', JBoolean True), (''autoTempChat'', JBoolean False),
                    (''tempChatEnabled'', JBoolean False)]],
        example_controls\<lparr>hintEl := blank_element\<lparr>textContent :=
           ''Hold Shift while accepting dictation to skip auto-send.''\<rparr>\<rparr>)
   \<and> take 1 (fst (snd (save (chrome_host None (Some (throwing_area 2))) ([], example_controls))))
     = [SetCall 2 [(''skipKey'', JString ''Shift''), (''holdToSend'', JBoolean False),
                   (''autoExpandChats'', JBoolean True), (''autoTempChat'', JBoolean False),
                   (''tempChatEnabled'', JBoolean False)]]"
proof -
  have p: "save_payload example_controls =
     [(''skipKey'', JString ''Shift''), (''holdToSend'', JBoolean False),
      (''autoExpandChats'', JBoolean True), (''autoTempChat'', JBoolean False),
      (''tempChatEnabled'', JBoolean False)]"
    by (simp add: save_payload_def example_controls_def key_select_def blank_element_def
        get_value_def Let_def)
  have g: "getStorageArea (chrome_host (Some (ok_area 1)) (Some (ok_area 2))) True
             = Some (ok_area 1)"
    by (simp add: getStorageArea_def chrome_host_def)
  have t: "fst (trySet (save_payload example_controls) (ok_area 1) []) = Resolved ()"
    by (simp add: trySet_def ok_area_def fixed_area_def nullish_def)
  have i: "ident (ok_area n) = n" "ident (throwing_area n) = n" for n
    by (simp_all add: ok_area_def throwing_area_def fixed_area_def)
  have v: "get_value (selectEl example_controls) = ''Shift''"
      "checked (holdEl example_controls) = False"
      "hintEl example_controls = blank_element"
    by (simp_all add: example_controls_def key_select_def blank_element_def get_value_def)
  note on_both = save_payload_shape[where c = example_controls
      and e = "chrome_host (Some (ok_area 1)) (Some (ok_area 2))" and h = "[]" and a = "ok_area 1"]
  have s: "save (chrome_host (Some (ok_area 1)) (Some (ok_area 2))) ([], example_controls)
     = (Resolved (), [] @ [SetCall (ident (ok_area 1)) (save_payload example_controls)],
        setHint (get_value (selectEl example_controls)) (checked (holdEl example_controls))
          example_controls)"
    using on_both g t by blast
  have g2: "getStorageArea (chrome_host None (Some (throwing_area 2))) True
              = Some (throwing_area 2)"
    by (simp add: getStorageArea_def chrome_host_def)
  note on_local = save_payload_shape[where c = example_controls
      and e = "chrome_host None (Some (throwing_area 2))" and h = "[]" and a = "throwing_area 2"]
  have f: "take (Suc (length ([]::call list)))
             (fst (snd (save (chrome_host None (Some (throwing_area 2))) ([], example_controls))))
           = [] @ [SetCall (ident (throwing_area 2)) (save_payload example_controls)]"
    using on_local g2 by blast
  have k: "property (save_payload example_controls) ''tempChatEnabled''
     = property (save_payload example_controls) ''autoTempChat''"
     "map fst (save_payload example_controls) =
     [''skipKey'', ''holdToSend'', ''autoExpandChats'', ''autoTempChat'', ''tempChatEnabled'']"
    using on_both by blast+
  show ?thesis
    using p g t s f k
    by (simp add: i v setHint_def)
qed

text \<open>
  Claim C6. The script looks the five elements up in the order hint, skipKey,
  holdToSend, autoExpandChats, autoTempChat, and the first one that is absent ends it
  with the error \<^verbatim>\<open>Missing element: <id>\<close>: nothing after the lookup runs. When all five
  are present the lookup returns them and the script goes on without an error. An error
  is raised exactly when one of the five is absent.
\<close>

theorem init_fail_fast:
  "(doc ''hint'' = None \<longrightarrow> init doc = Inl (JError ''Missing element: hint''))
   \<and> (doc ''hint'' \<noteq> None \<and> doc ''skipKey'' = None
        \<longrightarrow> init doc = Inl (JError ''Missing element: skipKey''))
   \<and> (doc ''hint'' \<noteq> None \<and> doc ''skipKey'' \<noteq> None \<and> doc ''holdToSend'' = None
        \<longrightarrow> init doc = Inl (JError ''Missing element: holdToSend''))
   \<and> (doc ''hint'' \<noteq> None \<and> doc ''skipKey'' \<noteq> None \<and> doc ''holdToSend'' \<noteq> None
        \<and> doc ''autoExpandChats'' = None
        \<longrightarrow> init doc = Inl (JError ''Missing element: autoExpandChats''))
   \<and> (doc ''hint'' \<noteq> None \<and> doc ''skipKey'' \<noteq> None \<and> doc ''holdToSend'' \<noteq> None
        \<and> doc ''autoExpandChats'' \<noteq> None \<and> doc ''autoTempChat'' = None
        \<longrightarrow> init doc = Inl (JError ''Missing element: autoTempChat''))
   \<and> (doc ''hint'' = Some el1 \<and> doc ''skipKey'' = Some el2 \<and> doc ''holdToSend'' = Some el3
        \<and> doc ''autoExpandChats'' = Some el4 \<and> doc ''autoTempChat'' = Some el5
        \<longrightarrow> init doc = Inr \<lparr> hintEl = el1, selectEl = el2, holdEl = el3,
                              autoExpandEl = el4, autoTempChatEl = el5 \<rparr>
            \<and> (\<exists>st. startup doc e h = Inr st))
   \<and> (init doc = Inl x \<longrightarrow> startup doc e h = Inl x)
   \<and> ((\<exists>x. init doc = Inl x) \<longleftrightarrow>
        (doc ''hint'' = None \<or> doc ''skipKey'' = None \<or> doc ''holdToSend'' = None
         \<or> doc ''autoExpandChats'' = None \<or> doc ''autoTempChat'' = None))"
  by (auto simp: init_def mustGetElement_def startup_def split: option.splits prod.splits)

text \<open>
  The theorem on the example document, on the same document without its hint element,
  and on the same document without its last toggle.
\<close>

theorem init_fail_fast_witness:
  "init example_document = Inr example_controls
   \<and> (example_document(''hint'' := None)) ''hint'' = None
   \<and> init (example_document(''hint'' := None)) = Inl (JError ''Missing element: hint'')
   \<and> startup (example_document(''hint'' := None)) no_storage_host []
       = Inl (JError ''Missing element: hint'')
   \<and> (example_document(''autoTempChat'' := None)) ''autoTempChat'' = None
   \<and> init (example_document(''autoTempChat'' := None))
       = Inl (JError ''Missing element: autoTempChat'')"
proof -
  have 1: "init example_document = Inr example_controls"
    using init_fail_fast[where doc = example_document and ?el1.0 = blank_element
        and ?el2.0 = key_select and ?el3.0 = blank_element
        and ?el4.0 = "blank_element\<lparr>checked := True\<rparr>" and ?el5.0 = blank_element,
        THEN conjunct2, THEN conjunct2, THEN conjunct2, THEN conjunct2, THEN conjunct2,
        THEN conjunct1]
    by (simp add: example_document_def example_controls_def)
  have 2: "init (example_document(''hint'' := None)) = Inl (JError ''Missing element: hint'')"
    using init_fail_fast[where doc = "example_document(''hint'' := None)", THEN conjunct1]
    by simp
  have 3: "startup (example_document(''hint'' := None)) no_storage_host []
       = Inl (JError ''Missing element: hint'')"
    using 2 init_fail_fast[where doc = "example_document(''hint'' := None)"
        and x = "JError ''Missing element: hint''" and e = no_storage_host and h = "[]",
        THEN conjunct2, THEN conjunct2, THEN conjunct2, THEN conjunct2, THEN conjunct2,
        THEN conjunct2, THEN conjunct1]
    by simp
  have 4: "init (example_document(''autoTempChat'' := None))
       = Inl (JError ''Missing element: autoTempChat'')"
    using init_fail_fast[where doc = "example_document(''autoTempChat'' := None)",
        THEN conjunct2, THEN conjunct2, THEN conjunct2, THEN conjunct2, THEN conjunct1]
    by (simp add: example_document_def)
  from 1 2 3 4 show ?thesis by simp
qed

text \<open>
  Claim C7, as the code has it. The lookup takes the \<^verbatim>\<open>browser\<close> global whenever it is
  defined, and the \<^verbatim>\<open>chrome\<close> global only when \<^verbatim>\<open>browser\<close> is not defined; the storage
  object of the global it took decides the answer (the synced area when preferred and
  present, the local area otherwise). A \<^verbatim>\<open>browser\<close> global without a storage object
  makes the lookup find nothing, whatever \<^verbatim>\<open>chrome\<close> carries.
\<close>

theorem getStorageArea_global_choice:
  "(browser e = Some b \<and> storage b = Some s
      \<longrightarrow> getStorageArea e p = (if p \<and> sync s \<noteq> None then sync s else local s))
   \<and> (browser e = Some b \<and> storage b = None \<longrightarrow> getStorageArea e p = None)
   \<and> (browser e = None \<and> storage (chrome e) = Some s
      \<longrightarrow> getStorageArea e p = (if p \<and> sync s \<noteq> None then sync s else local s))
   \<and> (browser e = None \<and> storage (chrome e) = None \<longrightarrow> getStorageArea e p = None)"
  by (auto simp: getStorageArea_def Let_def split: option.splits)

text \<open>
  The theorem on four hosts: both globals with storage (the area of \<^verbatim>\<open>browser\<close> is
  returned), \<^verbatim>\<open>browser\<close> without storage, \<^verbatim>\<open>chrome\<close> alone with storage, and \<^verbatim>\<open>chrome\<close>
  alone without.
\<close>

theorem getStorageArea_global_choice_witness:
  "getStorageArea both_globals True = Some (fixed_area 7 Silent Silent)
   \<and> getStorageArea browser_without_storage False = None
   \<and> getStorageArea (chrome_host (Some (ok_area 1)) (Some (ok_area 2))) True = Some (ok_area 1)
   \<and> getStorageArea (chrome_host (Some (ok_area 1)) (Some (ok_area 2))) False = Some (ok_area 2)
   \<and> getStorageArea no_storage_host True = None"
proof -
  have 1: "getStorageArea both_globals True = Some (fixed_area 7 Silent Silent)"
    using getStorageArea_global_choice[where e = both_globals and p = True
        and b = "\<lparr> storage = Some \<lparr> sync = None, local = Some (fixed_area 7 Silent Silent) \<rparr> \<rparr>"
        and s = "\<lparr> sync = None, local = Some (fixed_area 7 Silent Silent) \<rparr>", THEN conjunct1]
    by (simp add: both_globals_def)
  have 2: "getStorageArea browser_without_storage False = None"
    using getStorageArea_global_choice[where e = browser_without_storage and p = False
        and b = "\<lparr> storage = None \<rparr>", THEN conjunct2, THEN conjunct1]
    by (simp add: browser_without_storage_def)
  have 3: "getStorageArea (chrome_host (Some (ok_area 1)) (Some (ok_area 2))) True = Some (ok_area 1)"
    using getStorageArea_global_choice[where e = "chrome_host (Some (ok_area 1)) (Some (ok_area 2))"
        and p = True and s = "\<lparr> sync = Some (ok_area 1), local = Some (ok_area 2) \<rparr>",
        THEN conjunct2, THEN conjunct2, THEN conjunct1]
    by (simp add: chrome_host_def)
  have 4: "getStorageArea (chrome_host (Some (ok_area 1)) (Some (ok_area 2))) False = Some (ok_area 2)"
    using getStorageArea_global_choice[where e = "chrome_host (Some (ok_area 1)) (Some (ok_area 2))"
        and p = False and s = "\<lparr> sync = Some (ok_area 1), local = Some (ok_area 2) \<rparr>",
        THEN conjunct2, THEN conjunct2, THEN conjunct1]
    by (simp add: chrome_host_def)
  have 5: "getStorageArea no_storage_host True = None"
    using getStorageArea_global_choice[where e = no_storage_host and p = True,
        THEN conjunct2, THEN conjunct2, THEN conjunct2]
    by (simp add: no_storage_host_def)
  from 1 2 3 4 5 show ?thesis by simp
qed

text \<open>
  The claim as the specification words it fails on a host where \<^verbatim>\<open>chrome\<close> alone carries
  a storage object but \<^verbatim>\<open>browser\<close> is defined: the storage of \<^verbatim>\<open>chrome\<close> is not used, and
  the lookup finds no area.
\<close>

theorem getStorageArea_counterexample:
  "browser browser_without_storage = Some \<lparr> storage = None \<rparr>
   \<and> storage (chrome browser_without_storage)
       = Some \<lparr> sync = Some (fixed_area 1 Silent Silent),
                local = Some (fixed_area 2 Silent Silent) \<rparr>
   \<and> getStorageArea browser_without_storage True = None
   \<and> getStorageArea browser_without_storage False = None"
  by (simp add: browser_without_storage_def getStorageArea_def)

text \<open>
  Claim C8. When the get of \<^verbatim>\<open>load\<close> resolves with what a store holding exactly
  \<^verbatim>\<open>{skipKey: "Alt", holdToSend: true}\<close> answers (these two properties alone, or these two
  over the defaults the get was keyed by) and the selection control offers the value
  \<^verbatim>\<open>Alt\<close>, then \<^verbatim>\<open>load\<close> completes and the form shows \<open>skipKey = Alt\<close>,
  \<open>holdToSend = true\<close>, \<open>autoExpandChats = true\<close>, \<open>autoTempChat = false\<close>, with the hint
  naming \<^verbatim>\<open>Alt\<close>.
\<close>

theorem load_end_to_end:
  assumes "storageGet e SETTINGS_DEFAULTS h = (Resolved data, h1)"
    and "map_of data = [''skipKey'' \<mapsto> JString ''Alt'', ''holdToSend'' \<mapsto> JBoolean True]
         \<or> map_of data = map_of (settings_object SETTINGS_DEFAULTS)
                ++ [''skipKey'' \<mapsto> JString ''Alt'', ''holdToSend'' \<mapsto> JBoolean True]"
    and "''Alt'' \<in> set (options (selectEl c))"
  shows "\<exists>c'. load e (h, c) = (Resolved (), h1, c')
     \<and> get_value (selectEl c') = ''Alt''
     \<and> checked (holdEl c') = True
     \<and> checked (autoExpandEl c') = True
     \<and> checked (autoTempChatEl c') = False
     \<and> textContent (hintEl c') =
         ''Auto-send happens only while holding Alt when you accept dictation.''"
proof -
  have n: "normalizeSettings (Value data) =
      \<lparr> skipKey = ''Alt'', holdToSend = True, autoExpandChats = True,
        autoTempChat = False, tempChatEnabled = False \<rparr>"
    using assms(2)
    by (auto simp: normalizeSettings_def property_def SETTINGS_DEFAULTS_def settings_object_def
        Let_def map_add_def)
  show ?thesis
    using assms(1,3)
    by (simp add: load_def n Let_def setHint_def get_value_set_value)
qed

text \<open>
  The theorem on the example page and a host whose synced area answers with the two
  stored properties.
\<close>

theorem load_end_to_end_witness:
  "storageGet (chrome_host (Some (ok_area 1)) (Some (ok_area 2))) SETTINGS_DEFAULTS []
     = (Resolved stored_alt, [GetCall 1 SETTINGS_DEFAULTS])
   \<and> ''Alt'' \<in> set (options (selectEl example_controls))
   \<and> (\<exists>c'. load (chrome_host (Some (ok_area 1)) (Some (ok_area 2))) ([], example_controls)
             = (Resolved (), [GetCall 1 SETTINGS_DEFAULTS], c')
         \<and> get_value (selectEl c') = ''Alt''
         \<and> checked (holdEl c') = True
         \<and> checked (autoExpandEl c') = True
         \<and> checked (autoTempChatEl c') = False
         \<and> textContent (hintEl c') =
             ''Auto-send happens only while holding Alt when you accept dictation.'')"
proof -
  have g: "storageGet (chrome_host (Some (ok_area 1)) (Some (ok_area 2))) SETTINGS_DEFAULTS []
     = (Resolved stored_alt, [GetCall 1 SETTINGS_DEFAULTS])"
    by (simp add: storageGet_cases getStorageArea_def chrome_host_def ok_area_def
        fixed_area_def tryGet_def nullish_def)
  have m: "map_of stored_alt = [''skipKey'' \<mapsto> JString ''Alt'', ''holdToSend'' \<mapsto> JBoolean True]
         \<or> map_of stored_alt = map_of (settings_object SETTINGS_DEFAULTS)
                ++ [''skipKey'' \<mapsto> JString ''Alt'', ''holdToSend'' \<mapsto> JBoolean True]"
    by (rule disjI1, rule ext) (simp add: stored_alt_def)
  have a: "''Alt'' \<in> set (options (selectEl example_controls))"
    by (simp add: example_controls_def key_select_def blank_element_def)
  from g a load_end_to_end[OF g m a] show ?thesis
    by simp
qed


end
